theory Spec2Isabelle
  imports Main "HOL-Library.Word" "HOL-Library.AList"
begin

unbundle bit_operations_syntax

section \<open>The RSVP worker: a shallow embedding of worker/src/index.ts\<close>

text \<open>
  Strings are \<^typ>\<open>string\<close>: a \<^typ>\<open>char\<close> stands for one code unit below 256, which is
  what a header value, a base64 text and a byte of a \<open>Uint8Array\<close> are. Numbers are
  \<^typ>\<open>int\<close>: the worker only counts, compares and prints whole numbers, and
  JavaScript's numbers are exact on them up to \<open>2^53\<close>. An exception is a value: a
  function that can throw returns \<open>exn + 'a\<close>, with \<open>Inl\<close> the thrown error. The clock,
  the random identifier and the functions of the platform are arguments.
\<close>

subsection \<open>timingSafeEqual\<close>

text \<open>
  \<open>a.charCodeAt(i)\<close> as an operand of \<open>^\<close> and \<open>|\<close>: the code unit as a 32-bit integer,
  and 0 (from \<open>NaN\<close>) past the end of the string.
\<close>

definition charCodeAt :: "string \<Rightarrow> nat \<Rightarrow> 32 word" where
  "charCodeAt s i = (if i < length s then of_nat (of_char (s ! i)) else 0)"

text \<open>The loop \<open>for (let i = 0; i < a.length; i++) out |= a.charCodeAt(i) ^ b.charCodeAt(i)\<close>.\<close>

function timingSafeEqual_loop :: "string \<Rightarrow> string \<Rightarrow> nat \<Rightarrow> 32 word \<Rightarrow> 32 word" where
  "timingSafeEqual_loop a b i out =
     (if i < length a
      then timingSafeEqual_loop a b (i + 1) (out OR (charCodeAt a i XOR charCodeAt b i))
      else out)"
  by pat_completeness auto
termination
  by (relation "measure (\<lambda>(a, b, i, out). length a - i)") auto

declare timingSafeEqual_loop.simps [simp del]

definition timingSafeEqual :: "string \<Rightarrow> string \<Rightarrow> bool" where
  "timingSafeEqual a b =
     (if length a \<noteq> length b then False
      else timingSafeEqual_loop a b 0 0 = 0)"

subsection \<open>normalizeName\<close>

text \<open>
  The character classes of the two regular expressions and of \<open>trim\<close>, for code units
  below 256: \<open>\s\<close> (and what \<open>trim\<close> strips) is TAB, LF, VT, FF, CR, SPACE and
  NO-BREAK SPACE; \<open>\p{L}\<close> and \<open>\p{N}\<close> are the Unicode general categories L and N.
\<close>

definition is_space :: "char \<Rightarrow> bool" where
  "is_space c = (let n = (of_char c :: nat) in (9 \<le> n \<and> n \<le> 13) \<or> n = 32 \<or> n = 160)"

definition is_letter :: "char \<Rightarrow> bool" where
  "is_letter c =
     (let n = (of_char c :: nat) in
      (65 \<le> n \<and> n \<le> 90) \<or> (97 \<le> n \<and> n \<le> 122) \<or> n = 170 \<or> n = 181 \<or> n = 186 \<or>
      (192 \<le> n \<and> n \<le> 214) \<or> (216 \<le> n \<and> n \<le> 246) \<or> (248 \<le> n \<and> n \<le> 255))"

definition is_number :: "char \<Rightarrow> bool" where
  "is_number c =
     (let n = (of_char c :: nat) in
      (48 \<le> n \<and> n \<le> 57) \<or> n = 178 \<or> n = 179 \<or> n = 185 \<or> (188 \<le> n \<and> n \<le> 190))"

text \<open>\<open>toLowerCase\<close> on one code unit: the upper-case letters of Basic Latin and Latin-1.\<close>

definition is_upper :: "char \<Rightarrow> bool" where
  "is_upper c =
     (let n = (of_char c :: nat) in
      (65 \<le> n \<and> n \<le> 90) \<or> (192 \<le> n \<and> n \<le> 214) \<or> (216 \<le> n \<and> n \<le> 222))"

definition lower_char :: "char \<Rightarrow> char" where
  "lower_char c = (if is_upper c then char_of ((of_char c :: nat) + 32) else c)"

definition toLowerCase :: "string \<Rightarrow> string" where
  "toLowerCase s = map lower_char s"

definition trim :: "string \<Rightarrow> string" where
  "trim s = rev (dropWhile is_space (rev (dropWhile is_space s)))"

text \<open>\<open>.replace(/[^\p{L}\p{N}\s]/gu, "")\<close>: every other character is removed.\<close>

definition strip_punct :: "string \<Rightarrow> string" where
  "strip_punct s = filter (\<lambda>c. is_letter c \<or> is_number c \<or> is_space c) s"

text \<open>\<open>.replace(/\s+/g, " ")\<close>: each maximal run of white space becomes one space.\<close>

function collapse_spaces :: "string \<Rightarrow> string" where
  "collapse_spaces [] = []"
| "collapse_spaces (c # cs) =
     (if is_space c then CHR '' '' # collapse_spaces (dropWhile is_space cs)
      else c # collapse_spaces cs)"
  by pat_completeness auto
termination
  by (relation "measure length") (auto simp: length_dropWhile_le less_Suc_eq_le)

declare collapse_spaces.simps [simp del]

definition normalizeName :: "string \<Rightarrow> string" where
  "normalizeName input = collapse_spaces (strip_punct (toLowerCase (trim input)))"

text \<open>
  Two predicates for the proofs: a string in which white space occurs only as single
  spaces, and a character that the lower-casing and the stripping leave alone.
\<close>

fun single_spaced :: "string \<Rightarrow> bool" where
  "single_spaced [] = True"
| "single_spaced (c # cs) =
     ((if is_space c then c = CHR '' '' \<and> (case cs of [] \<Rightarrow> True | d # _ \<Rightarrow> \<not> is_space d) else True)
      \<and> single_spaced cs)"

definition settled :: "char \<Rightarrow> bool" where
  "settled c = ((is_letter c \<or> is_number c \<or> is_space c) \<and> lower_char c = c)"

subsection \<open>Values, exceptions and the platform\<close>

text \<open>
  A JSON value, as \<open>JSON.parse\<close> returns it and \<open>JSON.stringify\<close> takes it. An object
  is the list of its properties in insertion order; reading a property reads the map of
  that list, and a missing property is \<open>undefined\<close>, here \<open>None\<close>.
\<close>

datatype jsval =
    JNull
  | JBool bool
  | JNum int
  | JStr string
  | JArr "jsval list"
  | JObj "(string \<times> jsval) list"

text \<open>A thrown error: \<open>e.message\<close> and \<open>e.stack\<close>.\<close>

datatype exn = Exn (exn_message: string) (exn_stack: string)

text \<open>
  What the worker calls and this repository does not define: the keyed hash and the
  digest of \<open>crypto.subtle\<close> (on bytes), \<open>JSON.parse\<close> of the text that \<open>TextDecoder\<close>
  reads from bytes (with the error it throws on a text that is not JSON), the whole
  number that \<open>Number\<close> reads from a string (if it reads one), and the errors thrown by
  \<open>atob\<close> on a text that is not base64, by reading a property of \<open>null\<close>, and by the
  database on a second row with the same primary key. They are parameters of the model:
  a theorem with a platform \<open>P\<close> in it holds for each platform.
\<close>

record platform =
  hmac_sign :: "string \<Rightarrow> string \<Rightarrow> string"
  sha256_digest :: "string \<Rightarrow> string"
  JSON_parse :: "string \<Rightarrow> exn + jsval"
  StringToNumber :: "string \<Rightarrow> int option"
  atob_error :: exn
  null_error :: exn
  unique_error :: exn

subsection \<open>Text: numbers, JSON.stringify, String, UTF-8\<close>

definition digit_char :: "nat \<Rightarrow> char" where
  "digit_char n = char_of (48 + n)"

text \<open>
  A whole number as \<open>String(n)\<close>, a template literal and \<open>JSON.stringify\<close> print it:
  the decimal digits, after a minus sign for a negative number.
\<close>

function show_digits :: "int \<Rightarrow> string" where
  "show_digits n =
     (if n < 10 then [digit_char (nat n)]
      else show_digits (n div 10) @ [digit_char (nat (n mod 10))])"
  by pat_completeness auto
termination
  by (relation "measure nat") auto

declare show_digits.simps [simp del]

definition show_int :: "int \<Rightarrow> string" where
  "show_int i = (if i < 0 then CHR ''-'' # show_digits (- i) else show_digits i)"

fun join :: "string \<Rightarrow> string list \<Rightarrow> string" where
  "join sep [] = []"
| "join sep [x] = x"
| "join sep (x # y # ys) = x @ sep @ join sep (y # ys)"

definition hex_digit :: "nat \<Rightarrow> char" where
  "hex_digit n = (if n < 10 then char_of (48 + n) else char_of (87 + n))"

text \<open>
  \<open>JSON.stringify\<close> on a string: the quote, the backslash and the control characters
  are escaped, everything else is copied.
\<close>

definition json_escape :: "char \<Rightarrow> string" where
  "json_escape c =
     (let n = (of_char c :: nat) in
      if n = 34 then [CHR 0x5C, CHR 0x22]
      else if n = 92 then [CHR 0x5C, CHR 0x5C]
      else if n = 8 then [CHR 0x5C, CHR ''b'']
      else if n = 12 then [CHR 0x5C, CHR ''f'']
      else if n = 10 then [CHR 0x5C, CHR ''n'']
      else if n = 13 then [CHR 0x5C, CHR ''r'']
      else if n = 9 then [CHR 0x5C, CHR ''t'']
      else if n < 32 then [CHR 0x5C, CHR ''u'', CHR ''0'', CHR ''0'', hex_digit (n div 16), hex_digit (n mod 16)]
      else [c])"

definition json_quote :: "string \<Rightarrow> string" where
  "json_quote s = CHR 0x22 # concat (map json_escape s) @ [CHR 0x22]"

fun JSON_stringify :: "jsval \<Rightarrow> string" where
  "JSON_stringify JNull = ''null''"
| "JSON_stringify (JBool b) = (if b then ''true'' else ''false'')"
| "JSON_stringify (JNum i) = show_int i"
| "JSON_stringify (JStr s) = json_quote s"
| "JSON_stringify (JArr xs) = ''['' @ join '','' (map JSON_stringify xs) @ '']''"
| "JSON_stringify (JObj kvs) =
     ''{'' @ join '','' (map (\<lambda>(k, v). json_quote k @ '':'' @ JSON_stringify v) kvs) @ ''}''"

text \<open>
  \<open>String(x)\<close>: an array prints its elements joined by commas, \<open>null\<close> elements as
  nothing; an object prints as \<open>[object Object]\<close>.
\<close>

fun String_of :: "jsval \<Rightarrow> string" where
  "String_of JNull = ''null''"
| "String_of (JBool b) = (if b then ''true'' else ''false'')"
| "String_of (JNum i) = show_int i"
| "String_of (JStr s) = s"
| "String_of (JArr xs) = join '','' (map (\<lambda>x. if x = JNull then [] else String_of x) xs)"
| "String_of (JObj kvs) = ''[object Object]''"

text \<open>\<open>new TextEncoder().encode(s)\<close>: a code unit from 128 on takes two bytes.\<close>

definition utf8_char :: "char \<Rightarrow> string" where
  "utf8_char c =
     (let n = (of_char c :: nat) in
      if n < 128 then [c] else [char_of (192 + n div 64), char_of (128 + n mod 64)])"

definition utf8_encode :: "string \<Rightarrow> string" where
  "utf8_encode s = concat (map utf8_char s)"

subsection \<open>Base64: btoa, atob, b64url\<close>

definition b64_char :: "nat \<Rightarrow> char" where
  "b64_char n =
     (if n < 26 then char_of (65 + n)
      else if n < 52 then char_of (71 + n)
      else if n < 62 then char_of (n - 4)
      else if n = 62 then CHR ''+'' else CHR ''/'')"

definition b64_val :: "char \<Rightarrow> nat option" where
  "b64_val c =
     (let n = (of_char c :: nat) in
      if 65 \<le> n \<and> n \<le> 90 then Some (n - 65)
      else if 97 \<le> n \<and> n \<le> 122 then Some (n - 71)
      else if 48 \<le> n \<and> n \<le> 57 then Some (n + 4)
      else if c = CHR ''+'' then Some 62
      else if c = CHR ''/'' then Some 63
      else None)"

text \<open>The 6-bit groups of a byte string; a last group is filled with zero bits.\<close>

fun sextets :: "string \<Rightarrow> nat list" where
  "sextets [] = []"
| "sextets [a] = (let x = (of_char a :: nat) in [x div 4, (x mod 4) * 16])"
| "sextets [a, b] =
     (let x = (of_char a :: nat); y = (of_char b :: nat)
      in [x div 4, (x mod 4) * 16 + y div 16, (y mod 16) * 4])"
| "sextets (a # b # c # rest) =
     (let x = (of_char a :: nat); y = (of_char b :: nat); z = (of_char c :: nat)
      in [x div 4, (x mod 4) * 16 + y div 16, (y mod 16) * 4 + z div 64, z mod 64] @ sextets rest)"

text \<open>\<open>btoa\<close> of the binary string of the bytes: base64 with \<open>=\<close> padding.\<close>

definition btoa :: "string \<Rightarrow> string" where
  "btoa bytes =
     map b64_char (sextets bytes) @ replicate ((3 - length bytes mod 3) mod 3) (CHR ''='')"

text \<open>The bytes of a list of 6-bit groups; the bits left over at the end are dropped.\<close>

fun unsextets :: "nat list \<Rightarrow> string" where
  "unsextets (a # b # c # d # rest) =
     [char_of (a * 4 + b div 16), char_of ((b mod 16) * 16 + c div 4), char_of ((c mod 4) * 64 + d)]
     @ unsextets rest"
| "unsextets [a, b, c] = [char_of (a * 4 + b div 16), char_of ((b mod 16) * 16 + c div 4)]"
| "unsextets [a, b] = [char_of (a * 4 + b div 16)]"
| "unsextets _ = []"

definition ascii_whitespace :: "char \<Rightarrow> bool" where
  "ascii_whitespace c = (let n = (of_char c :: nat) in n = 9 \<or> n = 10 \<or> n = 12 \<or> n = 13 \<or> n = 32)"

definition strip_padding :: "string \<Rightarrow> string" where
  "strip_padding d =
     (case rev d of
        e # f # r \<Rightarrow> if e = CHR ''='' then (if f = CHR ''='' then rev r else rev (f # r)) else d
      | [e] \<Rightarrow> if e = CHR ''='' then [] else d
      | [] \<Rightarrow> d)"

text \<open>
  \<open>atob\<close>, the forgiving base64 decoding: ASCII white space is removed; if the length
  is a multiple of 4, one or two \<open>=\<close> at the end are removed; a length that leaves 1
  modulo 4, or a character outside the alphabet, throws (\<open>None\<close>).
\<close>

definition atob :: "string \<Rightarrow> string option" where
  "atob data =
     (let d1 = filter (\<lambda>c. \<not> ascii_whitespace c) data;
          d2 = (if length d1 mod 4 = 0 then strip_padding d1 else d1)
      in if length d2 mod 4 = 1 then None
         else map_option unsextets (those (map b64_val d2)))"

definition replaceAll :: "char \<Rightarrow> string \<Rightarrow> string \<Rightarrow> string" where
  "replaceAll c r s = concat (map (\<lambda>x. if x = c then r else [x]) s)"

definition b64url :: "string \<Rightarrow> string" where
  "b64url bytes =
     replaceAll (CHR ''='') [] (replaceAll (CHR ''/'') ''_'' (replaceAll (CHR ''+'') ''-'' (btoa bytes)))"

definition b64urlJson :: "jsval \<Rightarrow> string" where
  "b64urlJson obj = b64url (utf8_encode (JSON_stringify obj))"

subsection \<open>The token: hmacSha256, signJWT, verifyJWT\<close>

definition hmacSha256 :: "platform \<Rightarrow> string \<Rightarrow> string \<Rightarrow> string" where
  "hmacSha256 P secret data = hmac_sign P (utf8_encode secret) (utf8_encode data)"

text \<open>
  \<open>signJWT(secret, payload, expiresSeconds)\<close>, with \<open>Date.now()\<close> as the argument
  \<open>now_ms\<close>. The spread \<open>{...payload, iat: now, exp: now + expiresSeconds}\<close> keeps the
  place of a property that \<open>payload\<close> already has and replaces its value.
\<close>

definition signJWT :: "platform \<Rightarrow> string \<Rightarrow> (string \<times> jsval) list \<Rightarrow> int \<Rightarrow> int \<Rightarrow> string" where
  "signJWT P secret payload expiresSeconds now_ms =
     (let header = JObj [(''alg'', JStr ''HS256''), (''typ'', JStr ''JWT'')];
          now = now_ms div 1000;
          fullPayload = JObj (AList.update ''exp'' (JNum (now + expiresSeconds))
                               (AList.update ''iat'' (JNum now) payload));
          part1 = b64urlJson header;
          part2 = b64urlJson fullPayload;
          toSign = part1 @ ''.'' @ part2;
          sig = hmacSha256 P secret toSign
      in toSign @ ''.'' @ b64url sig)"

text \<open>\<open>token.split(".")\<close>.\<close>

fun split_on :: "char \<Rightarrow> string \<Rightarrow> string list" where
  "split_on c [] = [[]]"
| "split_on c (x # xs) =
     (if x = c then [] # split_on c xs
      else (case split_on c xs of p # ps \<Rightarrow> (x # p) # ps | [] \<Rightarrow> [[x]]))"

text \<open>
  \<open>verifyJWT(secret, token)\<close>, with \<open>Date.now()\<close> as \<open>now_ms\<close>: \<open>Inr None\<close> is the
  returned \<open>null\<close>, \<open>Inr (Some payload)\<close> the returned payload, \<open>Inl e\<close> a throw.
  \<open>payload.exp\<close> throws on \<open>null\<close> and is \<open>undefined\<close> on any other value that is not
  an object with that property.
\<close>

definition verifyJWT :: "platform \<Rightarrow> string \<Rightarrow> string \<Rightarrow> int \<Rightarrow> exn + jsval option" where
  "verifyJWT P secret token now_ms =
     (case split_on (CHR ''.'') token of
        [p1, p2, sig] \<Rightarrow>
          (let toVerify = p1 @ ''.'' @ p2;
               expected = b64url (hmacSha256 P secret toVerify)
           in if \<not> timingSafeEqual expected sig then Inr None
              else (case atob (replaceAll (CHR ''_'') ''/'' (replaceAll (CHR ''-'') ''+'' p2)) of
                      None \<Rightarrow> Inl (atob_error P)
                    | Some bytes \<Rightarrow>
                        (case JSON_parse P bytes of
                           Inl e \<Rightarrow> Inl e
                         | Inr payload \<Rightarrow>
                             (let now = now_ms div 1000
                              in case payload of
                                   JNull \<Rightarrow> Inl (null_error P)
                                 | JObj props \<Rightarrow>
                                     (case map_of props ''exp'' of
                                        Some (JNum exp) \<Rightarrow>
                                          if exp < now then Inr None else Inr (Some payload)
                                      | _ \<Rightarrow> Inr None)
                                 | _ \<Rightarrow> Inr None))))
      | _ \<Rightarrow> Inr None)"

subsection \<open>Requests, responses and the database\<close>

text \<open>
  The two tables of the schema, rows in insertion order. \<open>id\<close> and \<open>invite_id\<close> are
  the primary keys.
\<close>

record invite =
  inv_id :: string
  display_name :: string
  norm_name :: string
  allowed_guests :: int
  message :: "string option"
  created_at :: string

record rsvp =
  invite_id :: string
  primary_name :: string
  attending :: int
  extra_guest_names :: string
  rsvp_notes :: "string option"
  submitted_at :: string
  ip :: "string option"

record db =
  invites :: "invite list"
  rsvps :: "rsvp list"

text \<open>The bindings of \<open>Env\<close> that the routes read.\<close>

record env =
  SITE_ORIGIN :: string
  ADMIN_PASSWORD_SALT :: string
  ADMIN_PASSWORD_HASH :: string
  JWT_SECRET :: string

text \<open>
  What a route reads of the request: method, \<open>url.pathname\<close>,
  \<open>url.searchParams.get("id")\<close>, three headers, and the outcome of \<open>await req.json()\<close>,
  which throws on a body that is not JSON.
\<close>

record request =
  req_method :: string
  path :: string
  query_id :: "string option"
  origin :: "string option"
  authorization :: "string option"
  cf_connecting_ip :: "string option"
  body :: "exn + jsval"

text \<open>
  What one call reads of the world: \<open>Date.now()\<close>, \<open>new Date().toISOString()\<close> and
  \<open>crypto.randomUUID()\<close>.
\<close>

record ambient =
  now_ms :: int
  now_iso :: string
  random_uuid :: string

record response =
  status :: nat
  headers :: "(string \<times> string) list"
  content :: "string option"

definition corsHeaders :: "string \<Rightarrow> (string \<times> string) list" where
  "corsHeaders origin' =
     [(''Access-Control-Allow-Origin'', origin'),
      (''Access-Control-Allow-Methods'', ''GET,POST,DELETE,OPTIONS''),
      (''Access-Control-Allow-Headers'', ''Content-Type, Authorization'')]"

text \<open>\<open>json(data, { status })\<close>; without a status it is 200.\<close>

definition json :: "jsval \<Rightarrow> nat option \<Rightarrow> response" where
  "json data init_status =
     \<lparr>status = (case init_status of None \<Rightarrow> 200 | Some st \<Rightarrow> if st = 0 then 200 else st),
      headers = [(''Content-Type'', ''application/json'')],
      content = Some (JSON_stringify data)\<rparr>"

text \<open>
  \<open>withCors\<close>: each CORS header is set on a copy of the response's headers. Header
  names are kept as the source writes them.
\<close>

definition withCors :: "string \<Rightarrow> response \<Rightarrow> response" where
  "withCors allowedOrigin resp =
     resp\<lparr>headers := fold (\<lambda>(k, v) h. AList.update k v h) (corsHeaders allowedOrigin) (headers resp)\<rparr>"

definition error_json :: "string \<Rightarrow> jsval" where
  "error_json msg = JObj [(''error'', JStr msg)]"

subsection \<open>JavaScript idioms of the routes\<close>

text \<open>\<open>body?.name\<close>: the property of an object, \<open>undefined\<close> on anything else.\<close>

fun property :: "jsval \<Rightarrow> string \<Rightarrow> jsval option" where
  "property (JObj props) k = map_of props k"
| "property _ k = None"

fun truthy :: "jsval \<Rightarrow> bool" where
  "truthy JNull = False"
| "truthy (JBool b) = b"
| "truthy (JNum i) = (i \<noteq> 0)"
| "truthy (JStr s) = (s \<noteq> [])"
| "truthy (JArr xs) = True"
| "truthy (JObj props) = True"

text \<open>\<open>Boolean(x)\<close> and \<open>String(x || "")\<close>, for \<open>x\<close> a property that may be missing.\<close>

definition Boolean_of :: "jsval option \<Rightarrow> bool" where
  "Boolean_of x = (case x of None \<Rightarrow> False | Some v \<Rightarrow> truthy v)"

definition String_or_empty :: "jsval option \<Rightarrow> string" where
  "String_or_empty x = (case x of None \<Rightarrow> [] | Some v \<Rightarrow> if truthy v then String_of v else [])"

text \<open>
  \<open>Number(x)\<close> when the result is a whole number, \<open>None\<close> when it is not (a fraction,
  \<open>NaN\<close>, an infinity); a string is read by the platform.
\<close>

definition Number_of :: "platform \<Rightarrow> jsval \<Rightarrow> int option" where
  "Number_of P v =
     (case v of
        JNull \<Rightarrow> Some 0
      | JBool b \<Rightarrow> Some (if b then 1 else 0)
      | JNum i \<Rightarrow> Some i
      | _ \<Rightarrow> StringToNumber P (String_of v))"

definition hex_byte :: "char \<Rightarrow> string" where
  "hex_byte b = (let n = (of_char b :: nat) in [hex_digit (n div 16), hex_digit (n mod 16)])"

definition sha256Hex :: "platform \<Rightarrow> string \<Rightarrow> string" where
  "sha256Hex P input = concat (map hex_byte (sha256_digest P (utf8_encode input)))"

text \<open>
  \<open>getBearer\<close>: the match of \<open>/^Bearer\s+(.+)$/i\<close> on the Authorization header, or on
  the empty string without one. \<open>\s+\<close> takes the longest run of white space that leaves
  a character for the group; the group cannot hold a line terminator.
\<close>

definition line_terminator :: "char \<Rightarrow> bool" where
  "line_terminator c = (let n = (of_char c :: nat) in n = 10 \<or> n = 13)"

definition getBearer :: "request \<Rightarrow> string option" where
  "getBearer req =
     (let h = (case authorization req of None \<Rightarrow> [] | Some v \<Rightarrow> v) in
      if toLowerCase (take 6 h) \<noteq> ''bearer'' then None
      else
        let ws = takeWhile is_space (drop 6 h);
            rest = dropWhile is_space (drop 6 h)
        in if ws = [] then None
           else if rest \<noteq> [] then (if list_ex line_terminator rest then None else Some rest)
           else if 2 \<le> length ws \<and> \<not> line_terminator (last ws) then Some [last ws]
           else None)"

subsection \<open>Queries\<close>

text \<open>\<open>SELECT ... FROM invites WHERE norm_name = ? LIMIT 1\<close> and \<open>... WHERE id = ? LIMIT 1\<close>.\<close>

definition invite_by_norm_name :: "db \<Rightarrow> string \<Rightarrow> invite option" where
  "invite_by_norm_name d norm = find (\<lambda>i. norm_name i = norm) (invites d)"

definition invite_by_id :: "db \<Rightarrow> string \<Rightarrow> invite option" where
  "invite_by_id d i = find (\<lambda>r. inv_id r = i) (invites d)"

text \<open>
  \<open>INSERT INTO rsvps ... ON CONFLICT(invite_id) DO UPDATE SET ...\<close>: a row with the key
  gets the six listed columns of the new row; without one the new row is added.
\<close>

definition upsert_rsvp :: "rsvp \<Rightarrow> rsvp list \<Rightarrow> rsvp list" where
  "upsert_rsvp new rows =
     (if invite_id new \<in> set (map invite_id rows)
      then map (\<lambda>r. if invite_id r = invite_id new
                     then r\<lparr>primary_name := primary_name new,
                            attending := attending new,
                            extra_guest_names := extra_guest_names new,
                            rsvp_notes := rsvp_notes new,
                            submitted_at := submitted_at new,
                            ip := ip new\<rparr>
                     else r) rows
      else rows @ [new])"

text \<open>
  \<open>ORDER BY created_at DESC\<close> on texts, compared code unit by code unit. Rows with the
  same \<open>created_at\<close> keep the order of the table (SQL leaves it open).
\<close>

fun text_less :: "string \<Rightarrow> string \<Rightarrow> bool" where
  "text_less [] [] = False"
| "text_less [] (y # ys) = True"
| "text_less (x # xs) [] = False"
| "text_less (x # xs) (y # ys) =
     ((of_char x :: nat) < of_char y \<or> (x = y \<and> text_less xs ys))"

fun insert_desc :: "('a \<Rightarrow> string) \<Rightarrow> 'a \<Rightarrow> 'a list \<Rightarrow> 'a list" where
  "insert_desc key x [] = [x]"
| "insert_desc key x (y # ys) =
     (if text_less (key x) (key y) then y # insert_desc key x ys else x # y # ys)"

definition order_by_desc :: "('a \<Rightarrow> string) \<Rightarrow> 'a list \<Rightarrow> 'a list" where
  "order_by_desc key xs = foldr (insert_desc key) xs []"

text \<open>\<open>invites i LEFT JOIN rsvps r ON r.invite_id = i.id\<close>.\<close>

definition left_join :: "db \<Rightarrow> (invite \<times> rsvp option) list" where
  "left_join d =
     concat (map (\<lambda>i. case filter (\<lambda>r. invite_id r = inv_id i) (rsvps d) of
                          [] \<Rightarrow> [(i, None)]
                        | rs \<Rightarrow> map (\<lambda>r. (i, Some r)) rs) (invites d))"

definition nullable :: "string option \<Rightarrow> jsval" where
  "nullable x = (case x of None \<Rightarrow> JNull | Some s \<Rightarrow> JStr s)"

definition invite_json :: "invite \<Rightarrow> jsval" where
  "invite_json i =
     JObj [(''id'', JStr (inv_id i)),
           (''displayName'', JStr (display_name i)),
           (''allowedGuests'', JNum (allowed_guests i)),
           (''message'', nullable (message i))]"

definition listed_json :: "invite \<times> rsvp option \<Rightarrow> jsval" where
  "listed_json row =
     (case row of (i, r) \<Rightarrow>
        JObj [(''id'', JStr (inv_id i)),
              (''displayName'', JStr (display_name i)),
              (''allowedGuests'', JNum (allowed_guests i)),
              (''message'', nullable (message i)),
              (''rsvpAttending'',
                 (case r of None \<Rightarrow> JNull
                  | Some x \<Rightarrow> JNum (if attending x \<noteq> 0 then 1 else 0))),
              (''rsvpUpdatedAt'',
                 (case r of None \<Rightarrow> JNull
                  | Some x \<Rightarrow> if submitted_at x = [] then JNull else JStr (submitted_at x)))])"

subsection \<open>The routes\<close>

text \<open>
  The body of the \<open>try\<close> block of \<open>fetch\<close>, one definition for each route. A route
  returns the database as it leaves it and either a response or, as \<open>Inl\<close>, the error
  it throws. The notification e-mail that the RSVP route hands to \<open>ctx.waitUntil\<close> is not
  part of the model: it is sent behind the response and touches neither the response nor
  the database.
\<close>

definition reply :: "string \<Rightarrow> jsval \<Rightarrow> nat option \<Rightarrow> exn + response" where
  "reply allowedOrigin data init_status = Inr (withCors allowedOrigin (json data init_status))"

text \<open>\<open>POST /public/find\<close>.\<close>

definition public_find :: "string \<Rightarrow> request \<Rightarrow> db \<Rightarrow> (exn + response) \<times> db" where
  "public_find allowedOrigin req d =
     (case body req of
        Inl e \<Rightarrow> (Inl e, d)
      | Inr b \<Rightarrow>
          (let name = String_or_empty (property b ''name'');
               norm = normalizeName name
           in if norm = [] then (reply allowedOrigin (error_json ''Name is required.'') (Some 400), d)
              else (case invite_by_norm_name d norm of
                      None \<Rightarrow>
                        (reply allowedOrigin
                           (error_json ''Invite not found. Please check spelling.'') (Some 404), d)
                    | Some row \<Rightarrow>
                        (reply allowedOrigin (JObj [(''invite'', invite_json row)]) None, d))))"

text \<open>\<open>GET /public/invite?id=...\<close>.\<close>

definition public_invite :: "string \<Rightarrow> request \<Rightarrow> db \<Rightarrow> (exn + response) \<times> db" where
  "public_invite allowedOrigin req d =
     (case query_id req of
        None \<Rightarrow> (reply allowedOrigin (error_json ''Missing id'') (Some 400), d)
      | Some i \<Rightarrow>
          if i = [] then (reply allowedOrigin (error_json ''Missing id'') (Some 400), d)
          else (case invite_by_id d i of
                  None \<Rightarrow> (reply allowedOrigin (error_json ''Invite not found.'') (Some 404), d)
                | Some row \<Rightarrow>
                    (reply allowedOrigin (JObj [(''invite'', invite_json row)]) None, d)))"

text \<open>
  \<open>POST /public/rsvp\<close>. First what the route reads from the body: the filtered list
  \<open>extraGuestNames\<close>, and the seven values that it binds to the \<open>INSERT\<close>.
\<close>

definition extraGuestNames :: "jsval \<Rightarrow> string list" where
  "extraGuestNames b =
     (case property b ''extraGuestNames'' of
        Some (JArr xs) \<Rightarrow> filter (\<lambda>n. n \<noteq> []) (map (\<lambda>x. trim (String_or_empty (Some x))) xs)
      | _ \<Rightarrow> [])"

definition bound_row :: "ambient \<Rightarrow> request \<Rightarrow> jsval \<Rightarrow> rsvp" where
  "bound_row amb req b =
     \<lparr>invite_id = String_or_empty (property b ''inviteId''),
      primary_name = trim (String_or_empty (property b ''primaryName'')),
      attending = (if Boolean_of (property b ''attending'') then 1 else 0),
      extra_guest_names = JSON_stringify (JArr (map JStr (extraGuestNames b))),
      rsvp_notes = (let n = trim (String_or_empty (property b ''notes''))
                    in if n = [] then None else Some n),
      submitted_at = now_iso amb,
      ip = (case cf_connecting_ip req of
              None \<Rightarrow> None
            | Some a \<Rightarrow> if a = [] then None else Some a)\<rparr>"

definition public_rsvp :: "string \<Rightarrow> ambient \<Rightarrow> request \<Rightarrow> db \<Rightarrow> (exn + response) \<times> db" where
  "public_rsvp allowedOrigin amb req d =
     (case body req of
        Inl e \<Rightarrow> (Inl e, d)
      | Inr b \<Rightarrow>
          (let inviteId = String_or_empty (property b ''inviteId'');
               primaryName = trim (String_or_empty (property b ''primaryName''));
               attending' = Boolean_of (property b ''attending'')
           in if inviteId = [] \<or> primaryName = []
              then (reply allowedOrigin (error_json ''Missing required fields.'') (Some 400), d)
              else
                (case invite_by_id d inviteId of
                   None \<Rightarrow> (reply allowedOrigin (error_json ''Invite not found.'') (Some 404), d)
                 | Some invitation \<Rightarrow>
                     if attending' \<and> allowed_guests invitation < int (length (extraGuestNames b))
                     then (reply allowedOrigin
                             (error_json (''This invite allows up to '' @ show_int (allowed_guests invitation)
                                          @ '' additional guest(s).'')) (Some 400), d)
                     else (reply allowedOrigin (JObj [(''ok'', JBool True)]) None,
                           d\<lparr>rsvps := upsert_rsvp (bound_row amb req b) (rsvps d)\<rparr>))))"

text \<open>\<open>POST /admin/login\<close>; the token lives for six hours.\<close>

definition admin_login ::
  "platform \<Rightarrow> env \<Rightarrow> string \<Rightarrow> ambient \<Rightarrow> request \<Rightarrow> db \<Rightarrow> (exn + response) \<times> db" where
  "admin_login P E allowedOrigin amb req d =
     (case body req of
        Inl e \<Rightarrow> (Inl e, d)
      | Inr b \<Rightarrow>
          (let password = String_or_empty (property b ''password'')
           in if password = []
              then (reply allowedOrigin (error_json ''Password required.'') (Some 400), d)
              else
                (let computed = sha256Hex P (ADMIN_PASSWORD_SALT E @ password)
                 in if \<not> timingSafeEqual computed (ADMIN_PASSWORD_HASH E)
                    then (reply allowedOrigin (error_json ''Invalid password.'') (Some 401), d)
                    else
                      (let token = signJWT P (JWT_SECRET E) [(''role'', JStr ''admin'')]
                                     (60 * 60 * 6) (now_ms amb)
                       in (reply allowedOrigin (JObj [(''token'', JStr token)]) None, d)))))"

text \<open>\<open>requireAdmin\<close>: the payload of a verified token whose role is \<open>"admin"\<close>.\<close>

definition requireAdmin :: "platform \<Rightarrow> env \<Rightarrow> ambient \<Rightarrow> request \<Rightarrow> exn + jsval option" where
  "requireAdmin P E amb req =
     (case getBearer req of
        None \<Rightarrow> Inr None
      | Some tok \<Rightarrow>
          if tok = [] then Inr None
          else (case verifyJWT P (JWT_SECRET E) tok (now_ms amb) of
                  Inl e \<Rightarrow> Inl e
                | Inr None \<Rightarrow> Inr None
                | Inr (Some payload) \<Rightarrow>
                    if \<not> truthy payload \<or> property payload ''role'' \<noteq> Some (JStr ''admin'')
                    then Inr None
                    else Inr (Some payload)))"

text \<open>\<open>GET /admin/invites\<close>.\<close>

definition admin_list ::
  "platform \<Rightarrow> env \<Rightarrow> string \<Rightarrow> ambient \<Rightarrow> request \<Rightarrow> db \<Rightarrow> (exn + response) \<times> db" where
  "admin_list P E allowedOrigin amb req d =
     (case requireAdmin P E amb req of
        Inl e \<Rightarrow> (Inl e, d)
      | Inr None \<Rightarrow> (reply allowedOrigin (error_json ''Unauthorized'') (Some 401), d)
      | Inr (Some admin) \<Rightarrow>
          (let rows = order_by_desc (\<lambda>row. created_at (fst row)) (left_join d)
           in (reply allowedOrigin (JObj [(''invites'', JArr (map listed_json rows))]) None, d)))"

text \<open>\<open>POST /admin/invites\<close>.\<close>

definition admin_create ::
  "platform \<Rightarrow> env \<Rightarrow> string \<Rightarrow> ambient \<Rightarrow> request \<Rightarrow> db \<Rightarrow> (exn + response) \<times> db" where
  "admin_create P E allowedOrigin amb req d =
     (case requireAdmin P E amb req of
        Inl e \<Rightarrow> (Inl e, d)
      | Inr None \<Rightarrow> (reply allowedOrigin (error_json ''Unauthorized'') (Some 401), d)
      | Inr (Some admin) \<Rightarrow>
          (case body req of
             Inl e \<Rightarrow> (Inl e, d)
           | Inr b \<Rightarrow>
               (let displayName = trim (String_or_empty (property b ''displayName''));
                    allowedGuests =
                      (case property b ''allowedGuests'' of
                         None \<Rightarrow> Some 0
                       | Some JNull \<Rightarrow> Some 0
                       | Some v \<Rightarrow> Number_of P v);
                    message' =
                      (case property b ''message'' of
                         None \<Rightarrow> None
                       | Some JNull \<Rightarrow> None
                       | Some v \<Rightarrow> Some (trim (String_of v)))
                in if displayName = []
                   then (reply allowedOrigin (error_json ''displayName required'') (Some 400), d)
                   else
                     (case allowedGuests of
                        None \<Rightarrow>
                          (reply allowedOrigin
                             (error_json ''allowedGuests must be an integer between 0 and 10.'')
                             (Some 400), d)
                      | Some n \<Rightarrow>
                          if n < 0 \<or> 10 < n
                          then (reply allowedOrigin
                                  (error_json ''allowedGuests must be an integer between 0 and 10.'')
                                  (Some 400), d)
                          else
                            (let id' = random_uuid amb;
                                 createdAt = now_iso amb;
                                 norm = normalizeName displayName;
                                 row = \<lparr>inv_id = id', display_name = displayName, norm_name = norm,
                                        allowed_guests = n, message = message',
                                        created_at = createdAt\<rparr>
                             in if id' \<in> set (map inv_id (invites d))
                                then (Inl (unique_error P), d)
                                else (reply allowedOrigin
                                        (JObj [(''invite'',
                                                JObj [(''id'', JStr id'),
                                                      (''displayName'', JStr displayName),
                                                      (''allowedGuests'', JNum n),
                                                      (''message'', nullable message')])]) None,
                                      d\<lparr>invites := invites d @ [row]\<rparr>))))))"

text \<open>\<open>DELETE /admin/invites?id=...\<close>: the invitation and its RSVP go.\<close>

definition admin_delete ::
  "platform \<Rightarrow> env \<Rightarrow> string \<Rightarrow> ambient \<Rightarrow> request \<Rightarrow> db \<Rightarrow> (exn + response) \<times> db" where
  "admin_delete P E allowedOrigin amb req d =
     (case requireAdmin P E amb req of
        Inl e \<Rightarrow> (Inl e, d)
      | Inr None \<Rightarrow> (reply allowedOrigin (error_json ''Unauthorized'') (Some 401), d)
      | Inr (Some admin) \<Rightarrow>
          (case query_id req of
             None \<Rightarrow> (reply allowedOrigin (error_json ''Missing id'') (Some 400), d)
           | Some i \<Rightarrow>
               if i = [] then (reply allowedOrigin (error_json ''Missing id'') (Some 400), d)
               else (reply allowedOrigin (JObj [(''ok'', JBool True)]) None,
                     d\<lparr>invites := filter (\<lambda>r. inv_id r \<noteq> i) (invites d),
                       rsvps := filter (\<lambda>r. invite_id r \<noteq> i) (rsvps d)\<rparr>)))"

text \<open>The chain of \<open>if (req.method === ... && path === ...)\<close> inside the \<open>try\<close>.\<close>

definition routes ::
  "platform \<Rightarrow> env \<Rightarrow> string \<Rightarrow> ambient \<Rightarrow> request \<Rightarrow> db \<Rightarrow> (exn + response) \<times> db" where
  "routes P E allowedOrigin amb req d =
     (if req_method req = ''POST'' \<and> path req = ''/public/find'' then public_find allowedOrigin req d
      else if req_method req = ''GET'' \<and> path req = ''/public/invite'' then public_invite allowedOrigin req d
      else if req_method req = ''POST'' \<and> path req = ''/public/rsvp'' then public_rsvp allowedOrigin amb req d
      else if req_method req = ''POST'' \<and> path req = ''/admin/login'' then admin_login P E allowedOrigin amb req d
      else if req_method req = ''GET'' \<and> path req = ''/admin/invites'' then admin_list P E allowedOrigin amb req d
      else if req_method req = ''POST'' \<and> path req = ''/admin/invites'' then admin_create P E allowedOrigin amb req d
      else if req_method req = ''DELETE'' \<and> path req = ''/admin/invites'' then admin_delete P E allowedOrigin amb req d
      else (reply allowedOrigin (error_json ''Not found'') (Some 404), d))"

text \<open>
  \<open>fetch\<close>: the preflight answer, the routes, and the \<open>catch\<close> that turns a thrown
  error into a 500 whose body carries \<open>e?.message || "Server error"\<close>.
\<close>

definition server_error :: "env \<Rightarrow> exn \<Rightarrow> response" where
  "server_error E e =
     \<lparr>status = 500,
      headers = (''Content-Type'', ''application/json'') # corsHeaders (SITE_ORIGIN E),
      content = Some (JSON_stringify
                  (error_json (if exn_message e = [] then ''Server error'' else exn_message e)))\<rparr>"

definition fetch :: "platform \<Rightarrow> env \<Rightarrow> ambient \<Rightarrow> request \<Rightarrow> db \<Rightarrow> response \<times> db" where
  "fetch P E amb req d =
     (let allowedOrigin =
            (case origin req of
               None \<Rightarrow> SITE_ORIGIN E
             | Some o' \<Rightarrow> if o' \<noteq> [] \<and> o' = SITE_ORIGIN E then o' else SITE_ORIGIN E)
      in if req_method req = ''OPTIONS''
         then (\<lparr>status = 200, headers = corsHeaders allowedOrigin, content = None\<rparr>, d)
         else (case routes P E allowedOrigin amb req d of
                 (Inr resp, d') \<Rightarrow> (resp, d')
               | (Inl e, d') \<Rightarrow> (server_error E e, d')))"


subsection \<open>Auxiliary definitions for the proofs\<close>



definition fullPayload :: "(string \<times> jsval) list \<Rightarrow> int \<Rightarrow> int \<Rightarrow> jsval" where
  "fullPayload payload expiresSeconds now_ms' =
     JObj (AList.update ''exp'' (JNum (now_ms' div 1000 + expiresSeconds))
            (AList.update ''iat'' (JNum (now_ms' div 1000)) payload))"

text \<open>
  The headers of every response that is not a preflight answer, and the response with
  those headers, a status and a JSON body.
\<close>

definition plain_headers :: "env \<Rightarrow> (string \<times> string) list" where
  "plain_headers E = (''Content-Type'', ''application/json'') # corsHeaders (SITE_ORIGIN E)"

definition answer :: "env \<Rightarrow> nat \<Rightarrow> jsval \<Rightarrow> response" where
  "answer E st data = \<lparr>status = st, headers = plain_headers E, content = Some (JSON_stringify data)\<rparr>"

subsection \<open>A sample platform\<close>

text \<open>
  One platform, to run the model on concrete requests. At the arguments listed it
  returns what the real platform returns there: HMAC-SHA-256 under the key \<open>s3cret\<close> of
  two signing inputs, the SHA-256 digests of two salted passwords, and \<open>JSON.parse\<close> of
  two payload texts. Elsewhere its values are placeholders.
\<close>

definition sample_hmac :: "string \<Rightarrow> string \<Rightarrow> string" where
  "sample_hmac key data =
     (if key = ''s3cret'' \<and> data =
         ''eyJhbGciOiJIUzI1NiIsInR5cCI6IkpXVCJ9.eyJyb2xlIjoiYWRtaW4iLCJpYXQiOjE3MDAwMDAwMDAsImV4cCI6MTcwMDAyMTYwMH0''
      then map char_of [145, 115, 133, 40, 13, 226, 242, 168, 54, 203, 149, 15, 241, 135, 143, 134,
                        242, 119, 141, 231, 211, 113, 248, 89, 64, 66, 179, 131, 141, 50, 133, 169 :: nat]
      else if key = ''s3cret'' \<and> data =
         ''eyJhbGciOiJIUzI1NiIsInR5cCI6IkpXVCJ9.eyJleHAiOjYwLCJpYXQiOjB9''
      then map char_of [26, 240, 171, 11, 104, 79, 19, 119, 140, 193, 122, 157, 144, 26, 20, 20,
                        166, 253, 71, 190, 189, 99, 133, 135, 227, 137, 103, 51, 248, 49, 158, 57 :: nat]
      else replicate 32 (CHR 0x00))"

definition sample_digest :: "string \<Rightarrow> string" where
  "sample_digest data =
     (if data = ''pepperhunter2''
      then map char_of [202, 69, 143, 103, 161, 230, 78, 96, 244, 4, 20, 192, 98, 197, 122, 187,
                        252, 29, 65, 181, 208, 195, 12, 208, 125, 18, 112, 69, 64, 6, 127, 33 :: nat]
      else if data = ''pepperletmein''
      then map char_of [7, 229, 21, 171, 238, 24, 27, 119, 202, 106, 203, 90, 238, 64, 121, 148,
                        249, 87, 1, 85, 234, 166, 70, 60, 113, 209, 6, 132, 207, 121, 27, 56 :: nat]
      else replicate 32 (CHR 0x00))"

definition sample_parse :: "string \<Rightarrow> exn + jsval" where
  \<open>sample_parse text =
     (if text = ''{"role":"admin","iat":1700000000,"exp":1700021600}''
      then Inr (JObj [(''role'', JStr ''admin''), (''iat'', JNum 1700000000), (''exp'', JNum 1700021600)])
      else if text = ''{"exp":60,"iat":0}''
      then Inr (JObj [(''exp'', JNum 60), (''iat'', JNum 0)])
      else Inl (Exn ''Unexpected token in JSON'' ''SyntaxError: Unexpected token in JSON at JSON.parse''))\<close>

definition sample_platform :: platform where
  "sample_platform =
     \<lparr>hmac_sign = sample_hmac,
      sha256_digest = sample_digest,
      JSON_parse = sample_parse,
      StringToNumber = (\<lambda>s. if s = ''2'' then Some 2 else None),
      atob_error = Exn ''Invalid base64 data'' ''InvalidCharacterError: Invalid base64 data at atob'',
      null_error = Exn ''Cannot read properties of null'' ''TypeError: Cannot read properties of null at verifyJWT'',
      unique_error = Exn ''UNIQUE constraint failed: invites.id'' ''Error: UNIQUE constraint failed: invites.id at D1''\<rparr>"

subsection \<open>Sample configuration, database and requests\<close>

definition sample_env :: env where
  "sample_env =
     \<lparr>SITE_ORIGIN = ''https://wedding.example'',
      ADMIN_PASSWORD_SALT = ''pepper'',
      ADMIN_PASSWORD_HASH = ''ca458f67a1e64e60f40414c062c57abbfc1d41b5d0c30cd07d12704540067f21'',
      JWT_SECRET = ''s3cret''\<rparr>"

definition sample_ambient :: ambient where
  "sample_ambient =
     \<lparr>now_ms = 1700000000000,
      now_iso = ''2023-11-14T22:13:20.000Z'',
      random_uuid = ''3b241101-e2bb-4255-8caf-4136c566a962''\<rparr>"

text \<open>One invitation, for John Smith, that allows two extra guests; no RSVP yet.\<close>

definition sample_db :: db where
  "sample_db =
     \<lparr>invites = [\<lparr>inv_id = ''inv-1'', display_name = ''John Smith'', norm_name = ''john smith'',
                   allowed_guests = 2, message = None,
                   created_at = ''2023-11-01T10:00:00.000Z''\<rparr>],
      rsvps = []\<rparr>"

definition post_json :: "string \<Rightarrow> exn + jsval \<Rightarrow> request" where
  "post_json p b =
     \<lparr>req_method = ''POST'', path = p, query_id = None, origin = Some ''https://wedding.example'',
      authorization = None, cf_connecting_ip = Some ''203.0.113.7'', body = b\<rparr>"

text \<open>
  A declined RSVP that still names a guest; a declined RSVP that names three; an
  accepted RSVP that names three; and the same without a primary name.
\<close>

definition declined_with_guest :: request where
  "declined_with_guest =
     post_json ''/public/rsvp''
       (Inr (JObj [(''inviteId'', JStr ''inv-1''), (''primaryName'', JStr ''John Smith''),
                   (''attending'', JBool False), (''extraGuestNames'', JArr [JStr ''Jane Smith''])]))"

definition declined_with_three :: request where
  "declined_with_three =
     post_json ''/public/rsvp''
       (Inr (JObj [(''inviteId'', JStr ''inv-1''), (''primaryName'', JStr ''John Smith''),
                   (''attending'', JBool False),
                   (''extraGuestNames'', JArr [JStr ''Jane'', JStr ''Joe'', JStr ''Jim''])]))"

definition attending_with_three :: request where
  "attending_with_three =
     post_json ''/public/rsvp''
       (Inr (JObj [(''inviteId'', JStr ''inv-1''), (''primaryName'', JStr ''John Smith''),
                   (''attending'', JBool True),
                   (''extraGuestNames'', JArr [JStr ''Jane'', JStr ''Joe'', JStr ''Jim''])]))"

definition unnamed_with_three :: request where
  "unnamed_with_three =
     post_json ''/public/rsvp''
       (Inr (JObj [(''inviteId'', JStr ''inv-1''), (''primaryName'', JStr '' ''),
                   (''attending'', JBool True),
                   (''extraGuestNames'', JArr [JStr ''Jane'', JStr ''Joe'', JStr ''Jim''])]))"

text \<open>Two accepted RSVPs for the same invitation, the second with other values.\<close>

definition first_rsvp :: request where
  "first_rsvp =
     post_json ''/public/rsvp''
       (Inr (JObj [(''inviteId'', JStr ''inv-1''), (''primaryName'', JStr ''John Smith''),
                   (''attending'', JBool True),
                   (''extraGuestNames'', JArr [JStr ''Jane Smith'', JStr ''Joe Smith'']),
                   (''notes'', JStr ''Vegetarian'')]))"



text \<open>A body that is not JSON; a login with a wrong password; a listing with a forged token
  and one without a token.\<close>

definition broken_body :: request where
  "broken_body =
     post_json ''/public/find''
       (Inl (Exn ''Unexpected end of JSON input''
                 ''SyntaxError: Unexpected end of JSON input at JSON.parse''))"



definition list_without_token :: request where
  "list_without_token =
     \<lparr>req_method = ''GET'', path = ''/admin/invites'', query_id = None,
      origin = Some ''https://wedding.example'', authorization = None,
      cf_connecting_ip = Some ''203.0.113.7'', body = Inr JNull\<rparr>"

section \<open>Properties\<close>

subsection \<open>timingSafeEqual decides equality\<close>





subsection \<open>normalizeName\<close>

lemma lower_char_code:
  "(of_char (lower_char c) :: nat) = (if is_upper c then of_char c + 32 else of_char c)"
proof (cases "is_upper c")
  case True
  then have "(of_char c :: nat) + 32 < 256"
    by (auto simp: is_upper_def Let_def)
  then have "((of_char c :: nat) + 32) mod 256 = of_char c + 32"
    by (rule mod_less)
  moreover have "lower_char c = char_of ((of_char c :: nat) + 32)"
    using True by (simp add: lower_char_def)
  ultimately show ?thesis
    using True by simp
next
  case False
  then show ?thesis
    by (simp add: lower_char_def)
qed

lemma lower_char_not_upper: "\<not> is_upper (lower_char c)"
  unfolding is_upper_def [of "lower_char c"] Let_def lower_char_code
  by (auto simp: is_upper_def Let_def)

lemma lower_char_idem: "lower_char (lower_char c) = lower_char c"
  using lower_char_not_upper [of c]
  by (simp add: lower_char_def [of "lower_char c"])

lemma lower_char_letter: "is_letter c \<Longrightarrow> is_letter (lower_char c)"
  unfolding is_letter_def [of "lower_char c"] Let_def lower_char_code
  by (auto simp: is_upper_def is_letter_def Let_def)

lemma lower_char_other: "\<not> is_letter c \<Longrightarrow> lower_char c = c"
  by (auto simp: lower_char_def is_upper_def is_letter_def Let_def)

lemma lower_char_keeps:
  "is_letter c \<or> is_number c \<or> is_space c \<Longrightarrow>
   is_letter (lower_char c) \<or> is_number (lower_char c) \<or> is_space (lower_char c)"
  using lower_char_letter [of c] lower_char_other [of c] by (cases "is_letter c") auto

lemma is_space_blank: "is_space (CHR '' '')"
  by (simp add: is_space_def)

lemma collapse_spaces_Nil: "collapse_spaces [] = []"
  by (simp add: collapse_spaces.simps)

lemma collapse_spaces_Cons:
  "collapse_spaces (c # cs) =
     (if is_space c then CHR '' '' # collapse_spaces (dropWhile is_space cs)
      else c # collapse_spaces cs)"
  by (simp add: collapse_spaces.simps)

lemma collapse_spaces_head:
  "collapse_spaces xs = d # ds \<Longrightarrow> is_space d \<Longrightarrow> xs \<noteq> [] \<and> is_space (hd xs)"
  by (cases xs) (auto simp: collapse_spaces_Nil collapse_spaces_Cons split: if_splits)

lemma dropWhile_head: "dropWhile P xs = d # ds \<Longrightarrow> \<not> P d"
  by (metis hd_dropWhile list.distinct(1) list.sel(1))

lemma single_spaced_collapse: "single_spaced (collapse_spaces xs)"
proof (induction xs rule: collapse_spaces.induct)
  case 1
  show ?case by (simp add: collapse_spaces_Nil)
next
  case (2 c cs)
  show ?case
  proof (cases "is_space c")
    case True
    have "\<not> is_space d" if "collapse_spaces (dropWhile is_space cs) = d # ds" for d ds
    proof
      assume "is_space d"
      from collapse_spaces_head [OF that this]
      obtain e es where "dropWhile is_space cs = e # es" "is_space e"
        by (cases "dropWhile is_space cs") auto
      then show False using dropWhile_head by metis
    qed
    then show ?thesis
      using True 2 by (auto simp: collapse_spaces_Cons is_space_blank split: list.splits)
  next
    case False
    then show ?thesis using 2 by (simp add: collapse_spaces_Cons)
  qed
qed

lemma collapse_fixed: "single_spaced xs \<Longrightarrow> collapse_spaces xs = xs"
proof (induction xs rule: collapse_spaces.induct)
  case 1
  show ?case by (simp add: collapse_spaces_Nil)
next
  case (2 c cs)
  show ?case
  proof (cases "is_space c")
    case True
    with "2.prems" have c: "c = CHR '' ''" and cs: "single_spaced cs"
      and hd: "case cs of [] \<Rightarrow> True | d # _ \<Rightarrow> \<not> is_space d"
      by simp_all
    from hd have "dropWhile is_space cs = cs"
      by (cases cs) simp_all
    with "2.IH"(1) [OF True] cs True c show ?thesis
      by (simp add: collapse_spaces_Cons)
  next
    case False
    with 2 show ?thesis by (simp add: collapse_spaces_Cons)
  qed
qed

lemma set_collapse: "set (collapse_spaces xs) \<subseteq> insert (CHR '' '') (set xs)"
proof (induction xs rule: collapse_spaces.induct)
  case 1
  show ?case by (simp add: collapse_spaces_Nil)
next
  case (2 c cs)
  show ?case
  proof (cases "is_space c")
    case True
    have "set (dropWhile is_space cs) \<subseteq> set cs"
      by (rule set_dropWhileD [THEN subsetI]) 
    with "2.IH"(1) [OF True] True show ?thesis
      by (auto simp: collapse_spaces_Cons)
  next
    case False
    with 2 show ?thesis by (auto simp: collapse_spaces_Cons)
  qed
qed

lemma single_spaced_suffix: "single_spaced (xs @ ys) \<Longrightarrow> single_spaced ys"
  by (induction xs) simp_all

lemma single_spaced_prefix: "single_spaced (xs @ ys) \<Longrightarrow> single_spaced xs"
proof (induction xs)
  case Nil
  show ?case by simp
next
  case (Cons x xs)
  then show ?case
    by (cases xs) (auto split: if_splits list.splits)
qed

lemma single_spaced_trim: "single_spaced xs \<Longrightarrow> single_spaced (trim xs)"
proof -
  assume a: "single_spaced xs"
  have "xs = takeWhile is_space xs @ dropWhile is_space xs" by simp
  with a have b: "single_spaced (dropWhile is_space xs)"
    using single_spaced_suffix by metis
  define ys where "ys = dropWhile is_space xs"
  have "ys = rev (dropWhile is_space (rev ys)) @ rev (takeWhile is_space (rev ys))"
    by (metis rev_append rev_rev_ident takeWhile_dropWhile_id)
  with b have "single_spaced (rev (dropWhile is_space (rev ys)))"
    unfolding ys_def [symmetric] using single_spaced_prefix by metis
  then show ?thesis by (simp add: trim_def ys_def)
qed

lemma settled_blank: "settled (CHR '' '')"
  by (simp add: settled_def is_space_def lower_char_def is_upper_def)

lemma settled_normalizeName: "c \<in> set (normalizeName s) \<Longrightarrow> settled c"
proof -
  assume "c \<in> set (normalizeName s)"
  then have "c = CHR '' '' \<or> c \<in> set (strip_punct (toLowerCase (trim s)))"
    using set_collapse by (auto simp: normalizeName_def)
  then show "settled c"
  proof
    assume "c = CHR '' ''"
    then show ?thesis by (simp add: settled_blank)
  next
    assume "c \<in> set (strip_punct (toLowerCase (trim s)))"
    then show ?thesis
      by (auto simp: strip_punct_def toLowerCase_def settled_def lower_char_idem)
  qed
qed

lemma set_trim: "set (trim s) \<subseteq> set s"
proof -
  have "set (dropWhile is_space (rev (dropWhile is_space s))) \<subseteq> set (rev (dropWhile is_space s))"
    using set_dropWhileD by fastforce
  moreover have "set (dropWhile is_space s) \<subseteq> set s"
    using set_dropWhileD by fastforce
  ultimately show ?thesis by (auto simp: trim_def)
qed

lemma settled_fixed:
  assumes "\<forall>c \<in> set xs. settled c"
  shows "strip_punct (toLowerCase xs) = xs"
proof -
  have "toLowerCase xs = xs"
    using assms by (simp add: toLowerCase_def settled_def map_idI)
  moreover have "strip_punct xs = xs"
    using assms by (simp add: strip_punct_def settled_def)
  ultimately show ?thesis by simp
qed

lemma normalizeName_again: "normalizeName (normalizeName s) = trim (normalizeName s)"
proof -
  let ?r = "normalizeName s"
  have "\<forall>c \<in> set (trim ?r). settled c"
    using set_trim settled_normalizeName by blast
  then have "strip_punct (toLowerCase (trim ?r)) = trim ?r"
    by (rule settled_fixed)
  moreover have "single_spaced (trim ?r)"
    by (rule single_spaced_trim) (simp add: normalizeName_def single_spaced_collapse)
  ultimately show ?thesis
    by (simp add: normalizeName_def [of "normalizeName s"] collapse_fixed)
qed

lemma trim_idem: "trim (trim s) = trim s"
proof -
  define d where "d = dropWhile is_space s"
  define pre where "pre = rev (dropWhile is_space (rev d))"
  have t: "trim s = pre" by (simp add: trim_def pre_def d_def)
  have d: "d = pre @ rev (takeWhile is_space (rev d))"
    unfolding pre_def by (metis rev_append rev_rev_ident takeWhile_dropWhile_id)
  have front: "dropWhile is_space pre = pre"
  proof (cases pre)
    case Nil
    then show ?thesis by simp
  next
    case (Cons z zs)
    with d have "d = z # (zs @ rev (takeWhile is_space (rev d)))" by simp
    then have "\<not> is_space z" unfolding d_def by (rule dropWhile_head)
    with Cons show ?thesis by simp
  qed
  have rear: "dropWhile is_space (rev pre) = rev pre"
    by (simp add: pre_def)
  show ?thesis
    unfolding t by (simp add: trim_def front rear)
qed


text \<open>
  C4, as the code has it. \<open>normalizeName\<close> trims before it strips punctuation, so white
  space that the stripping uncovers at either end stays (as one space). Applying
  \<open>normalizeName\<close> to a normalized name trims it and changes nothing else: the function
  is idempotent exactly on the inputs whose normalized name has no space at either end,
  and a second application always reaches a fixed point.
\<close>

theorem normalizeName_twice:
  "normalizeName (normalizeName s) = trim (normalizeName s) \<and>
   normalizeName (normalizeName (normalizeName s)) = normalizeName (normalizeName s)"
proof -
  have "normalizeName (normalizeName (normalizeName s)) = trim (normalizeName (normalizeName s))"
    by (rule normalizeName_again)
  also have "\<dots> = trim (trim (normalizeName s))"
    by (simp add: normalizeName_again)
  also have "\<dots> = normalizeName (normalizeName s)"
    by (simp add: trim_idem normalizeName_again)
  finally show ?thesis
    by (simp add: normalizeName_again)
qed

text \<open>
  C4 as stated fails: \<open>normalizeName("- a")\<close> is \<open>" a"\<close>, and normalizing that gives
  \<open>"a"\<close>.
\<close>

theorem normalizeName_not_idempotent:
  "normalizeName (normalizeName ''- a'') \<noteq> normalizeName ''- a''"
  by code_simp

subsection \<open>Base64 and the round trip of a signed token\<close>

















lemma replaceAll_map:
  "replaceAll c [r] s = map (\<lambda>x. if x = c then r else x) s"
  by (induction s) (simp_all add: replaceAll_def)













subsection \<open>verifyJWT and the expiry instant\<close>








subsection \<open>The round trip of signJWT and verifyJWT\<close>









subsection \<open>fetch, its routes and the RSVP table\<close>

lemma reply_answer:
  "reply (SITE_ORIGIN E) data (Some st) = Inr (answer E (if st = 0 then 200 else st) data)"
  "reply (SITE_ORIGIN E) data None = Inr (answer E 200 data)"
  by (simp_all add: reply_def withCors_def json_def corsHeaders_def answer_def plain_headers_def)

lemma fetch_routes:
  "fetch P E amb req d =
     (if req_method req = ''OPTIONS''
      then (\<lparr>status = 200, headers = corsHeaders (SITE_ORIGIN E), content = None\<rparr>, d)
      else (case routes P E (SITE_ORIGIN E) amb req d of
              (Inr resp, d') \<Rightarrow> (resp, d')
            | (Inl e, d') \<Rightarrow> (server_error E e, d')))"
  by (auto simp: fetch_def Let_def split: option.splits)

lemma routes_public_rsvp:
  "req_method req = ''POST'' \<Longrightarrow> path req = ''/public/rsvp'' \<Longrightarrow>
   routes P E o' amb req d = public_rsvp o' amb req d"
  by (simp add: routes_def)




lemma upsert_rsvp_keys:
  "distinct (map invite_id rows) \<Longrightarrow> distinct (map invite_id (upsert_rsvp new rows))"
proof -
  assume d: "distinct (map invite_id rows)"
  have same: "map invite_id
      (map (\<lambda>r. if invite_id r = k
                 then r\<lparr>primary_name := a1, attending := a2, extra_guest_names := a3,
                        rsvp_notes := a4, submitted_at := a5, ip := a6\<rparr>
                 else r) rows) = map invite_id rows" for k a1 a2 a3 a4 a5 a6
    by (induction rows) auto
  show ?thesis
  proof (cases "invite_id new \<in> set (map invite_id rows)")
    case True
    then show ?thesis
      unfolding upsert_rsvp_def using d by (simp only: if_True same)
  next
    case False
    then show ?thesis
      unfolding upsert_rsvp_def using d by simp
  qed
qed

lemma public_rsvp_written:
  assumes "public_rsvp o' amb req d = (Inr resp, d')" "status resp = 200"
  shows "\<exists>b. body req = Inr b \<and> d' = d\<lparr>rsvps := upsert_rsvp (bound_row amb req b) (rsvps d)\<rparr>"
  using assms
  by (auto simp: public_rsvp_def Let_def reply_def withCors_def json_def
      split: sum.splits if_splits option.splits)

lemma server_error_answer:
  "server_error E e = answer E 500 (error_json (if exn_message e = [] then ''Server error'' else exn_message e))"
  by (simp add: server_error_def answer_def plain_headers_def)

lemma routes_rsvps:
  "routes P E o' amb req d = (res, d') \<Longrightarrow>
     rsvps d' = rsvps d \<or>
     (\<exists>row. rsvps d' = upsert_rsvp row (rsvps d)) \<or>
     (\<exists>i. rsvps d' = filter (\<lambda>r. invite_id r \<noteq> i) (rsvps d))"
  unfolding routes_def public_find_def public_invite_def public_rsvp_def admin_login_def
    admin_list_def admin_create_def admin_delete_def Let_def
  by (auto split: if_splits sum.splits option.splits)

lemma fetch_rsvp_keys:
  assumes "distinct (map invite_id (rsvps d))"
  shows "distinct (map invite_id (rsvps (snd (fetch P E amb req d))))"
proof (cases "req_method req = ''OPTIONS''")
  case True
  with assms show ?thesis by (simp add: fetch_routes)
next
  case False
  obtain res d' where r: "routes P E (SITE_ORIGIN E) amb req d = (res, d')"
    by (cases "routes P E (SITE_ORIGIN E) amb req d")
  then have d': "snd (fetch P E amb req d) = d'"
    using False by (cases res) (simp_all add: fetch_routes)
  from routes_rsvps [OF r] assms show ?thesis
    unfolding d' by (auto simp: upsert_rsvp_keys distinct_map_filter)
qed


subsection \<open>Too many guests\<close>

lemma public_rsvp_too_many:
  assumes "body req = Inr b"
    and "String_or_empty (property b ''inviteId'') \<noteq> []"
    and "trim (String_or_empty (property b ''primaryName'')) \<noteq> []"
    and "invite_by_id d (String_or_empty (property b ''inviteId'')) = Some invitation"
    and "Boolean_of (property b ''attending'')"
    and "allowed_guests invitation < int (length (extraGuestNames b))"
  shows "public_rsvp (SITE_ORIGIN E) amb req d =
     (Inr (answer E 400 (error_json (''This invite allows up to '' @ show_int (allowed_guests invitation)
                                      @ '' additional guest(s).''))), d)"
  using assms by (simp add: public_rsvp_def Let_def reply_answer)

text \<open>
  C7, as the code has it. A \<open>POST /public/rsvp\<close> whose body has a non-empty invitation
  identifier and a non-empty trimmed primary name, for an invitation that exists, with a
  truthy \<open>attending\<close> and more non-empty trimmed extra guest names than the invitation's
  \<open>allowed_guests\<close>, is answered with status 400 and the message
  \<open>This invite allows up to N additional guest(s).\<close>, \<open>N\<close> the allowed count in decimal;
  the database is left as it was.
\<close>

theorem rsvp_too_many_guests:
  assumes "req_method req = ''POST''" and "path req = ''/public/rsvp''" and "body req = Inr b"
    and "String_or_empty (property b ''inviteId'') \<noteq> []"
    and "trim (String_or_empty (property b ''primaryName'')) \<noteq> []"
    and "invite_by_id d (String_or_empty (property b ''inviteId'')) = Some invitation"
    and "Boolean_of (property b ''attending'')"
    and "allowed_guests invitation < int (length (extraGuestNames b))"
  shows "fetch P E amb req d =
     (answer E 400 (error_json (''This invite allows up to '' @ show_int (allowed_guests invitation)
                                 @ '' additional guest(s).'')), d)"
proof -
  have "req_method req \<noteq> ''OPTIONS''"
    using assms(1) by simp
  moreover have "routes P E (SITE_ORIGIN E) amb req d = public_rsvp (SITE_ORIGIN E) amb req d"
    using assms(1,2) by (rule routes_public_rsvp)
  ultimately show ?thesis
    by (simp add: fetch_routes public_rsvp_too_many [OF assms(3-8)])
qed

text \<open>Three names for the sample invitation, which allows two.\<close>

theorem rsvp_too_many_guests_witness:
  "fetch sample_platform sample_env sample_ambient attending_with_three sample_db =
     (answer sample_env 400 (error_json (''This invite allows up to '' @ show_int 2 @ '' additional guest(s).'')),
      sample_db)"
proof -
  let ?b = "JObj [(''inviteId'', JStr ''inv-1''), (''primaryName'', JStr ''John Smith''),
                   (''attending'', JBool True),
                   (''extraGuestNames'', JArr [JStr ''Jane'', JStr ''Joe'', JStr ''Jim''])]"
  let ?i = "\<lparr>inv_id = ''inv-1'', display_name = ''John Smith'', norm_name = ''john smith'',
                   allowed_guests = 2, message = None,
                   created_at = ''2023-11-01T10:00:00.000Z''\<rparr>"
  have 1: "req_method attending_with_three = ''POST''" "path attending_with_three = ''/public/rsvp''"
    "body attending_with_three = Inr ?b"
    by (simp_all add: attending_with_three_def post_json_def)
  have 2: "String_or_empty (property ?b ''inviteId'') \<noteq> []"
    "Boolean_of (property ?b ''attending'')"
    by (simp_all add: String_or_empty_def Boolean_of_def)
  have 3: "trim (String_or_empty (property ?b ''primaryName'')) \<noteq> []"
    by code_simp
  have 4: "invite_by_id sample_db (String_or_empty (property ?b ''inviteId'')) = Some ?i"
    by (simp add: invite_by_id_def sample_db_def String_or_empty_def)
  have 5: "allowed_guests ?i < int (length (extraGuestNames ?b))"
    by code_simp
  from rsvp_too_many_guests [OF 1 2(1) 3 4 2(2) 5, of sample_platform sample_env sample_ambient]
  show ?thesis by simp
qed

text \<open>
  C7 as stated fails without a primary name: attending, an existing invitation, three
  names where two are allowed, and the answer is the 400 of the required-fields check,
  whose message names no count.
\<close>

theorem rsvp_unnamed_too_many_guests:
  \<open>fetch sample_platform sample_env sample_ambient unnamed_with_three sample_db =
     (\<lparr>status = 400,
       headers = [(''Content-Type'', ''application/json''),
                  (''Access-Control-Allow-Origin'', ''https://wedding.example''),
                  (''Access-Control-Allow-Methods'', ''GET,POST,DELETE,OPTIONS''),
                  (''Access-Control-Allow-Headers'', ''Content-Type, Authorization'')],
       content = Some ''{"error":"Missing required fields."}''\<rparr>,
      sample_db)\<close>
  by code_simp

subsection \<open>One row for each invitation, the last submission's\<close>

lemma fetch_rsvp_written:
  assumes "req_method req = ''POST''" and "path req = ''/public/rsvp''" and "body req = Inr b"
    and "status (fst (fetch P E amb req d)) = 200"
  shows "snd (fetch P E amb req d) = d\<lparr>rsvps := upsert_rsvp (bound_row amb req b) (rsvps d)\<rparr>"
proof -
  have r: "routes P E (SITE_ORIGIN E) amb req d = public_rsvp (SITE_ORIGIN E) amb req d"
    using assms(1,2) by (rule routes_public_rsvp)
  obtain res d' where p: "public_rsvp (SITE_ORIGIN E) amb req d = (res, d')"
    by (cases "public_rsvp (SITE_ORIGIN E) amb req d")
  show ?thesis
  proof (cases res)
    case (Inl e)
    with p r assms(1,4) show ?thesis
      by (simp add: fetch_routes server_error_def)
  next
    case (Inr resp)
    with p r assms(1,4) have "status resp = 200" and "snd (fetch P E amb req d) = d'"
      by (simp_all add: fetch_routes)
    with public_rsvp_written [of "SITE_ORIGIN E" amb req d resp d'] p Inr assms(3)
    show ?thesis by auto
  qed
qed



subsection \<open>Declined RSVPs and the extra guest names\<close>

text \<open>
  C1 at a failing input. The route filters \<open>extraGuestNames\<close> and binds it to the
  \<open>INSERT\<close> whatever \<open>attending\<close> is: a declined RSVP that names Jane Smith is
  accepted and the stored row has \<open>attending = 0\<close> and the guest list \<open>["Jane Smith"]\<close>,
  not the empty list.
\<close>

theorem declined_rsvp_keeps_guest_names:
  \<open>fetch sample_platform sample_env sample_ambient declined_with_guest sample_db =
   (\<lparr>status = 200,
     headers = [(''Content-Type'', ''application/json''),
                (''Access-Control-Allow-Origin'', ''https://wedding.example''),
                (''Access-Control-Allow-Methods'', ''GET,POST,DELETE,OPTIONS''),
                (''Access-Control-Allow-Headers'', ''Content-Type, Authorization'')],
     content = Some ''{"ok":true}''\<rparr>,
    sample_db\<lparr>rsvps :=
      [\<lparr>invite_id = ''inv-1'', primary_name = ''John Smith'', attending = 0,
        extra_guest_names = ''["Jane Smith"]'', rsvp_notes = None,
        submitted_at = ''2023-11-14T22:13:20.000Z'', ip = Some ''203.0.113.7''\<rparr>]\<rparr>)\<close>
  by code_simp

text \<open>
  C2 at a failing input. The count of names is checked only when \<open>attending\<close> is
  truthy: a declined RSVP with three names, for the invitation that allows two, is
  accepted and all three names are stored.
\<close>

theorem declined_rsvp_exceeds_allowed_guests:
  "status (fst (fetch sample_platform sample_env sample_ambient declined_with_three sample_db)) = 200 \<and>
   map allowed_guests (invites sample_db) = [2] \<and>
   map extra_guest_names
     (rsvps (snd (fetch sample_platform sample_env sample_ambient declined_with_three sample_db)))
     = [JSON_stringify (JArr [JStr ''Jane'', JStr ''Joe'', JStr ''Jim''])]"
  by code_simp

subsection \<open>The catch\<close>

lemma reply_headers: "reply o' data st = Inr resp \<Longrightarrow> headers resp = (''Content-Type'', ''application/json'') # corsHeaders o'"
  by (auto simp: reply_def withCors_def json_def corsHeaders_def)

lemma public_find_headers:
  "public_find o' req d = (Inr resp, d') \<Longrightarrow> headers resp = (''Content-Type'', ''application/json'') # corsHeaders o'"
  by (auto simp: public_find_def Let_def split: sum.splits if_splits option.splits dest: reply_headers)

lemma public_invite_headers:
  "public_invite o' req d = (Inr resp, d') \<Longrightarrow> headers resp = (''Content-Type'', ''application/json'') # corsHeaders o'"
  by (auto simp: public_invite_def Let_def split: sum.splits if_splits option.splits dest: reply_headers)

lemma public_rsvp_headers:
  "public_rsvp o' amb req d = (Inr resp, d') \<Longrightarrow> headers resp = (''Content-Type'', ''application/json'') # corsHeaders o'"
  by (auto simp: public_rsvp_def Let_def split: sum.splits if_splits option.splits dest: reply_headers)

lemma admin_login_headers:
  "admin_login P E o' amb req d = (Inr resp, d') \<Longrightarrow> headers resp = (''Content-Type'', ''application/json'') # corsHeaders o'"
  by (auto simp: admin_login_def Let_def split: sum.splits if_splits option.splits dest: reply_headers)

lemma admin_list_headers:
  "admin_list P E o' amb req d = (Inr resp, d') \<Longrightarrow> headers resp = (''Content-Type'', ''application/json'') # corsHeaders o'"
  by (auto simp: admin_list_def Let_def split: sum.splits if_splits option.splits dest: reply_headers)

lemma admin_create_headers:
  "admin_create P E o' amb req d = (Inr resp, d') \<Longrightarrow> headers resp = (''Content-Type'', ''application/json'') # corsHeaders o'"
  by (auto simp: admin_create_def Let_def split: sum.splits if_splits option.splits dest: reply_headers)

lemma admin_delete_headers:
  "admin_delete P E o' amb req d = (Inr resp, d') \<Longrightarrow> headers resp = (''Content-Type'', ''application/json'') # corsHeaders o'"
  by (auto simp: admin_delete_def Let_def split: sum.splits if_splits option.splits dest: reply_headers)

lemma routes_headers:
  "routes P E o' amb req d = (Inr resp, d') \<Longrightarrow> headers resp = (''Content-Type'', ''application/json'') # corsHeaders o'"
  unfolding routes_def
  by (auto split: if_splits
      dest: reply_headers public_find_headers public_invite_headers public_rsvp_headers
        admin_login_headers admin_list_headers admin_create_headers admin_delete_headers)

lemma routes_throw_not_preflight:
  "routes P E o' amb req d = (Inl e, d') \<Longrightarrow> req_method req \<noteq> ''OPTIONS''"
  by (auto simp: routes_def reply_def split: if_splits)

text \<open>
  C5, as the code has it. When a route throws, \<open>fetch\<close> answers 500 with the JSON body
  \<open>{"error": m}\<close>, where \<open>m\<close> is the thrown error's own message, and the generic
  \<open>Server error\<close> only when that message is empty; nothing else of the error (so no stack
  trace) is in the response, and the database is as the route left it. The response has
  the headers of every response of a route that returns: the content type and the three
  cross-origin headers for the configured site origin.
\<close>

theorem fetch_catch:
  "(routes P E (SITE_ORIGIN E) amb req d = (Inl e, d') \<longrightarrow>
      fetch P E amb req d =
        (answer E 500 (error_json (if exn_message e = [] then ''Server error'' else exn_message e)), d')) \<and>
   (req_method req \<noteq> ''OPTIONS'' \<and> routes P E (SITE_ORIGIN E) amb req d = (Inr resp, d') \<longrightarrow>
      fetch P E amb req d = (resp, d') \<and> headers resp = plain_headers E)"
proof (intro conjI impI)
  assume thrown: "routes P E (SITE_ORIGIN E) amb req d = (Inl e, d')"
  then have "req_method req \<noteq> ''OPTIONS''"
    by (rule routes_throw_not_preflight)
  with thrown show "fetch P E amb req d =
        (answer E 500 (error_json (if exn_message e = [] then ''Server error'' else exn_message e)), d')"
    by (simp add: fetch_routes server_error_answer)
next
  assume ok: "req_method req \<noteq> ''OPTIONS'' \<and> routes P E (SITE_ORIGIN E) amb req d = (Inr resp, d')"
  then show "fetch P E amb req d = (resp, d')"
    by (simp add: fetch_routes)
  from ok have "headers resp = (''Content-Type'', ''application/json'') # corsHeaders (SITE_ORIGIN E)"
    using routes_headers by blast
  then show "headers resp = plain_headers E"
    by (simp add: plain_headers_def)
qed

text \<open>A body that is not JSON on \<open>/public/find\<close>, and an accepted RSVP.\<close>

theorem fetch_catch_witness:
  \<open>fetch sample_platform sample_env sample_ambient broken_body sample_db =
     (answer sample_env 500 (error_json ''Unexpected end of JSON input''), sample_db) \<and>
   fetch sample_platform sample_env sample_ambient declined_with_guest sample_db =
     (\<lparr>status = 200, headers = plain_headers sample_env, content = Some ''{"ok":true}''\<rparr>,
      sample_db\<lparr>rsvps := [bound_row sample_ambient declined_with_guest
         (JObj [(''inviteId'', JStr ''inv-1''), (''primaryName'', JStr ''John Smith''),
                (''attending'', JBool False), (''extraGuestNames'', JArr [JStr ''Jane Smith''])])]\<rparr>) \<and>
   headers \<lparr>status = 200, headers = plain_headers sample_env, content = Some ''{"ok":true}''\<rparr>
     = plain_headers sample_env\<close>
proof -
  have thrown: "routes sample_platform sample_env (SITE_ORIGIN sample_env) sample_ambient broken_body sample_db
      = (Inl (Exn ''Unexpected end of JSON input''
                  ''SyntaxError: Unexpected end of JSON input at JSON.parse''), sample_db)"
    by code_simp
  have ok: \<open>req_method declined_with_guest \<noteq> ''OPTIONS'' \<and>
      routes sample_platform sample_env (SITE_ORIGIN sample_env) sample_ambient declined_with_guest sample_db
      = (Inr \<lparr>status = 200, headers = plain_headers sample_env, content = Some ''{"ok":true}''\<rparr>,
         sample_db\<lparr>rsvps := [bound_row sample_ambient declined_with_guest
           (JObj [(''inviteId'', JStr ''inv-1''), (''primaryName'', JStr ''John Smith''),
                  (''attending'', JBool False), (''extraGuestNames'', JArr [JStr ''Jane Smith''])])]\<rparr>)\<close>
    by code_simp
  from thrown fetch_catch [of sample_platform sample_env sample_ambient broken_body sample_db]
  have 1: "fetch sample_platform sample_env sample_ambient broken_body sample_db =
     (answer sample_env 500 (error_json ''Unexpected end of JSON input''), sample_db)"
    by simp
  from ok fetch_catch [of sample_platform sample_env sample_ambient declined_with_guest sample_db]
  have 2: \<open>fetch sample_platform sample_env sample_ambient declined_with_guest sample_db =
     (\<lparr>status = 200, headers = plain_headers sample_env, content = Some ''{"ok":true}''\<rparr>,
      sample_db\<lparr>rsvps := [bound_row sample_ambient declined_with_guest
         (JObj [(''inviteId'', JStr ''inv-1''), (''primaryName'', JStr ''John Smith''),
                (''attending'', JBool False), (''extraGuestNames'', JArr [JStr ''Jane Smith''])])]\<rparr>)\<close>
    by blast
  from 1 2 show ?thesis by simp
qed

text \<open>
  C5 as stated fails: the body of the 500 is not a generic message, it is the message of
  the error that \<open>req.json()\<close> threw.
\<close>

theorem fetch_catch_leaks_message:
  \<open>status (fst (fetch sample_platform sample_env sample_ambient broken_body sample_db)) = 500 \<and>
   content (fst (fetch sample_platform sample_env sample_ambient broken_body sample_db))
     = Some ''{"error":"Unexpected end of JSON input"}''\<close>
  by code_simp

subsection \<open>The two 401 responses\<close>














subsection \<open>Further properties of the routes\<close>

lemma public_rsvp_accepted:
  assumes "public_rsvp o' amb req d = (Inr resp, d')" "status resp = 200" "body req = Inr b"
  shows "\<exists>invitation. invite_by_id d (String_or_empty (property b ''inviteId'')) = Some invitation \<and>
           (Boolean_of (property b ''attending'') \<longrightarrow>
              int (length (extraGuestNames b)) \<le> allowed_guests invitation)"
  using assms
  by (auto simp: public_rsvp_def Let_def reply_def withCors_def json_def
      split: sum.splits if_splits option.splits)

text \<open>
  An accepted RSVP that attends is for an invitation that exists and names at most as
  many extra guests as the invitation allows; the row written carries exactly the
  filtered names, as JSON text.
\<close>

theorem rsvp_attending_within_allowed:
  assumes "req_method req = ''POST''" and "path req = ''/public/rsvp''" and "body req = Inr b"
    and "Boolean_of (property b ''attending'')"
    and "status (fst (fetch P E amb req d)) = 200"
  shows "\<exists>invitation. invite_by_id d (String_or_empty (property b ''inviteId'')) = Some invitation \<and>
           int (length (extraGuestNames b)) \<le> allowed_guests invitation \<and>
           rsvps (snd (fetch P E amb req d)) = upsert_rsvp (bound_row amb req b) (rsvps d) \<and>
           extra_guest_names (bound_row amb req b) = JSON_stringify (JArr (map JStr (extraGuestNames b)))"
proof -
  have r: "routes P E (SITE_ORIGIN E) amb req d = public_rsvp (SITE_ORIGIN E) amb req d"
    using assms(1,2) by (rule routes_public_rsvp)
  obtain res d' where p: "public_rsvp (SITE_ORIGIN E) amb req d = (res, d')"
    by (cases "public_rsvp (SITE_ORIGIN E) amb req d")
  have written: "snd (fetch P E amb req d) = d\<lparr>rsvps := upsert_rsvp (bound_row amb req b) (rsvps d)\<rparr>"
    using assms(1,2,3,5) by (rule fetch_rsvp_written)
  show ?thesis
  proof (cases res)
    case (Inl e)
    with p r assms(1,5) show ?thesis
      by (simp add: fetch_routes server_error_def)
  next
    case (Inr resp)
    with p r assms(1,5) have "status resp = 200"
      by (simp add: fetch_routes)
    with public_rsvp_accepted [of "SITE_ORIGIN E" amb req d resp d' b] p Inr assms(3,4) written
    show ?thesis by (auto simp: bound_row_def)
  qed
qed

theorem rsvp_attending_within_allowed_witness:
  "\<exists>invitation. invite_by_id sample_db (String_or_empty (property
       (JObj [(''inviteId'', JStr ''inv-1''), (''primaryName'', JStr ''John Smith''),
                   (''attending'', JBool True),
                   (''extraGuestNames'', JArr [JStr ''Jane Smith'', JStr ''Joe Smith'']),
                   (''notes'', JStr ''Vegetarian'')]) ''inviteId'')) = Some invitation \<and>
     int (length (extraGuestNames (JObj [(''inviteId'', JStr ''inv-1''), (''primaryName'', JStr ''John Smith''),
                   (''attending'', JBool True),
                   (''extraGuestNames'', JArr [JStr ''Jane Smith'', JStr ''Joe Smith'']),
                   (''notes'', JStr ''Vegetarian'')]))) \<le> allowed_guests invitation \<and>
     rsvps (snd (fetch sample_platform sample_env sample_ambient first_rsvp sample_db))
       = upsert_rsvp (bound_row sample_ambient first_rsvp (JObj [(''inviteId'', JStr ''inv-1''), (''primaryName'', JStr ''John Smith''),
                   (''attending'', JBool True),
                   (''extraGuestNames'', JArr [JStr ''Jane Smith'', JStr ''Joe Smith'']),
                   (''notes'', JStr ''Vegetarian'')])) (rsvps sample_db) \<and>
     extra_guest_names (bound_row sample_ambient first_rsvp (JObj [(''inviteId'', JStr ''inv-1''), (''primaryName'', JStr ''John Smith''),
                   (''attending'', JBool True),
                   (''extraGuestNames'', JArr [JStr ''Jane Smith'', JStr ''Joe Smith'']),
                   (''notes'', JStr ''Vegetarian'')]))
       = JSON_stringify (JArr (map JStr (extraGuestNames (JObj [(''inviteId'', JStr ''inv-1''), (''primaryName'', JStr ''John Smith''),
                   (''attending'', JBool True),
                   (''extraGuestNames'', JArr [JStr ''Jane Smith'', JStr ''Joe Smith'']),
                   (''notes'', JStr ''Vegetarian'')]))))"
proof (rule rsvp_attending_within_allowed)
  show "req_method first_rsvp = ''POST''" "path first_rsvp = ''/public/rsvp''"
    "body first_rsvp = Inr (JObj [(''inviteId'', JStr ''inv-1''), (''primaryName'', JStr ''John Smith''),
                   (''attending'', JBool True),
                   (''extraGuestNames'', JArr [JStr ''Jane Smith'', JStr ''Joe Smith'']),
                   (''notes'', JStr ''Vegetarian'')])"
    by (simp_all add: first_rsvp_def post_json_def)
  show "Boolean_of (property (JObj [(''inviteId'', JStr ''inv-1''), (''primaryName'', JStr ''John Smith''),
                   (''attending'', JBool True),
                   (''extraGuestNames'', JArr [JStr ''Jane Smith'', JStr ''Joe Smith'']),
                   (''notes'', JStr ''Vegetarian'')]) ''attending'')"
    by (simp add: Boolean_of_def)
  show "status (fst (fetch sample_platform sample_env sample_ambient first_rsvp sample_db)) = 200"
    by code_simp
qed

text \<open>
  No request gives an invitation a second RSVP row: if the \<open>invite_id\<close> values of the
  table are distinct before \<open>fetch\<close>, they are distinct after it.
\<close>

theorem fetch_keeps_one_row_per_invitation:
  assumes "distinct (map invite_id (rsvps d))"
  shows "distinct (map invite_id (rsvps (snd (fetch P E amb req d))))"
proof -
  obtain res d' where "fetch P E amb req d = (res, d')"
    by (cases "fetch P E amb req d")
  with fetch_rsvp_keys [OF assms, of P E amb req] show ?thesis
    by simp
qed

theorem fetch_keeps_one_row_per_invitation_witness:
  "distinct (map invite_id (rsvps (snd (fetch sample_platform sample_env sample_ambient first_rsvp sample_db))))"
  using fetch_keeps_one_row_per_invitation [of sample_db sample_platform sample_env sample_ambient first_rsvp]
  by (simp add: sample_db_def)

text \<open>
  A preflight request is answered 200 with the three cross-origin headers for the
  configured origin, no body, and no change to the database.
\<close>

theorem preflight_answer:
  assumes "req_method req = ''OPTIONS''"
  shows "fetch P E amb req d =
     (\<lparr>status = 200, headers = corsHeaders (SITE_ORIGIN E), content = None\<rparr>, d)"
  using assms by (simp add: fetch_routes)

theorem preflight_answer_witness:
  "fetch sample_platform sample_env sample_ambient (list_without_token\<lparr>req_method := ''OPTIONS''\<rparr>) sample_db =
     (\<lparr>status = 200, headers = corsHeaders (SITE_ORIGIN sample_env), content = None\<rparr>, sample_db)"
  by (rule preflight_answer) simp

text \<open>The example of the specification: case, punctuation and runs of spaces go.\<close>

theorem normalizeName_smith_family:
  "normalizeName ''The Smith Family!'' = ''the smith family'' \<and>
   normalizeName ''the   smith family'' = ''the smith family''"
  by code_simp

end
